theory Spec2Isabelle
  imports Main
begin

section \<open>The frame endpoint: data\<close>

text \<open>
  The request body of the frame endpoint (README, Step 3):
  \<^verbatim>\<open>const body: { untrustedData?: { fid?: number, buttonIndex?: number } } = await req.json();\<close>
  Every field is optional; an absent field is \<open>None\<close>. The two numbers are integer ids.
\<close>

record untrusted_data =
  fid :: "int option"
  buttonIndex :: "int option"

record frame_request =
  untrustedData :: "untrusted_data option"

text \<open>
  The value of \<^verbatim>\<open>accountAddress\<close>: a string, or JavaScript's \<^verbatim>\<open>undefined\<close>
  (\<open>None\<close>), which is what \<^verbatim>\<open>user.verifications[0]\<close> yields on an empty array.
\<close>

type_synonym address = "string option"

text \<open>
  The JSON answer of the directory (Neynar, \<^verbatim>\<open>/v2/farcaster/user/bulk?fids=${fid}\<close>), as far
  as the handler reads it: \<^verbatim>\<open>data.users\<close> and, of its first element,
  \<^verbatim>\<open>verifications\<close>. A property that is absent from the JSON is \<open>None\<close>.
  \<open>NoReply\<close>: the awaited \<^verbatim>\<open>fetch\<close> rejects. \<open>NotJson\<close>: the awaited
  \<^verbatim>\<open>response.json()\<close> rejects, the answer not being JSON.
\<close>

record farcaster_user =
  verifications :: "string list option"

datatype directory_reply = NoReply | NotJson | Json "farcaster_user list option"

text \<open>
  What can leave the handler instead of a label. \<open>TypeError\<close> is JavaScript's own, raised
  by a property read on \<^verbatim>\<open>undefined\<close>; \<open>SyntaxError\<close> is the rejection of
  \<^verbatim>\<open>json()\<close> on a body that is not JSON; \<open>FetchFailed\<close> is the rejection of the
  directory request. The last two are the failures of the messaging helpers, which the
  README calls but does not list; they carry the names of the error taxonomy.
\<close>

datatype error =
    TypeError
  | SyntaxError
  | FetchFailed
  | PresenceCheckFailed
  | MessageDeliveryFailed

text \<open>What the messaging network answers to a reachability query.\<close>

datatype network_answer = Reachable bool | TransportFailure

text \<open>
  The collaborators of one click, as parameters: the directory, the messaging network's
  answer for an address, whether a conversation with an address can be opened, and
  whether a message sent to an address is delivered.
\<close>

record collaborators =
  directory :: "int option \<Rightarrow> directory_reply"
  network :: "address \<Rightarrow> network_answer"
  opens :: "address \<Rightarrow> bool"
  delivers :: "address \<Rightarrow> bool"

text \<open>
  The external calls of a click, in the order they are issued. \<open>SendMessage\<close> carries
  what the call's promise settles to, since the handler itself never looks at it.
\<close>

datatype event =
    Fetch "int option"
  | RedisGet address
  | InitializeWallet
  | CreateXMTPClient
  | CheckAddressIsOnNetwork address
  | RedisSet address
  | NewConversation address
  | SendMessage address "error + unit"

text \<open>
  The state a click runs in: the Subscription Store (for each address, whether it is
  marked subscribed) and the log of calls issued so far.
\<close>

record frame_state =
  store :: "address \<Rightarrow> bool"
  calls :: "event list"

definition record_call :: "event \<Rightarrow> frame_state \<Rightarrow> frame_state" where
  "record_call e s = s\<lparr>calls := calls s @ [e]\<rparr>"

text \<open>
  Modelled from the spec: no code under the source reads or writes the store (README
  line 166 names the write in prose only). Subscription Store, spec 4.6:
  \<^verbatim>\<open>get(address) -> Subscriber|absent\<close>, \<^verbatim>\<open>setSubscribed(address)\<close>, single-key
  operations by address key. \<open>setSubscribed\<close> is the write of
  \<^verbatim>\<open>subscribed=true\<close> for one address.
\<close>

definition setSubscribed :: "address \<Rightarrow> frame_state \<Rightarrow> frame_state" where
  "setSubscribed a s = record_call (RedisSet a) (s\<lparr>store := (store s)(a := True)\<rparr>)"

section \<open>The frame endpoint: the handler\<close>

text \<open>
  \<^verbatim>\<open>body.untrustedData?.fid\<close> and \<^verbatim>\<open>body.untrustedData?.buttonIndex\<close>
  (README lines 134-135): optional chaining gives \<^verbatim>\<open>undefined\<close> when
  \<^verbatim>\<open>untrustedData\<close> is absent.
\<close>

definition body_fid :: "frame_request \<Rightarrow> int option" where
  "body_fid body = (case untrustedData body of None \<Rightarrow> None | Some u \<Rightarrow> fid u)"

definition body_buttonIndex :: "frame_request \<Rightarrow> int option" where
  "body_buttonIndex body = (case untrustedData body of None \<Rightarrow> None | Some u \<Rightarrow> buttonIndex u)"

text \<open>
  README lines 145-149:
  \<^verbatim>\<open>
  const data = await response.json();
  const user = data.users[0];
  // Assuming the account address is the first item in the 'verifications' array
  accountAddress = user.verifications[0];
  \<close>
  Reading \<^verbatim>\<open>[0]\<close> of an absent \<^verbatim>\<open>users\<close>, \<^verbatim>\<open>.verifications\<close> of an absent
  first user, or \<^verbatim>\<open>[0]\<close> of an absent \<^verbatim>\<open>verifications\<close> raises a TypeError;
  index 0 of an empty array is \<^verbatim>\<open>undefined\<close> and raises nothing. The awaited
  \<^verbatim>\<open>fetch\<close> (line 138) and \<^verbatim>\<open>response.json()\<close> (line 145) raise when they reject.
\<close>

definition accountAddress :: "directory_reply \<Rightarrow> error + address" where
  "accountAddress reply =
     (case reply of
        NoReply \<Rightarrow> Inl FetchFailed
      | NotJson \<Rightarrow> Inl SyntaxError
      | Json None \<Rightarrow> Inl TypeError
      | Json (Some []) \<Rightarrow> Inl TypeError
      | Json (Some (user # _)) \<Rightarrow>
          (case verifications user of
             None \<Rightarrow> Inl TypeError
           | Some [] \<Rightarrow> Inr None
           | Some (v # _) \<Rightarrow> Inr (Some v)))"

text \<open>
  Modelled from the spec: \<^verbatim>\<open>checkAddressIsOnNetwork\<close> is called in the README (line 180)
  but its body is not part of the source. Network Presence Checker: given an address,
  returns boolean reachability on the messaging network; a transport failure is
  distinguished from a negative reachability result and surfaced as the distinct error
  \<open>PresenceCheckFailed\<close>.
\<close>

definition checkAddressIsOnNetwork :: "collaborators \<Rightarrow> address \<Rightarrow> error + bool" where
  "checkAddressIsOnNetwork env a =
     (case network env a of
        TransportFailure \<Rightarrow> Inl PresenceCheckFailed
      | Reachable b \<Rightarrow> Inr b)"

text \<open>
  Modelled from the spec: \<^verbatim>\<open>newConversation\<close> is called in the README (line 183)
  but its body is not part of the source. Opt-In Messenger: given an established client
  and a destination address, opens a conversation; \<open>MessageDeliveryFailed\<close> when the
  conversation open failed. The conversation handle is identified with its peer address.
\<close>

definition newConversation :: "collaborators \<Rightarrow> address \<Rightarrow> error + address" where
  "newConversation env a = (if opens env a then Inr a else Inl MessageDeliveryFailed)"

text \<open>
  Modelled from the spec: \<^verbatim>\<open>sendMessage\<close> is called in the README (line 185) but its
  body is not part of the source. Opt-In Messenger: sends one fixed-template message over
  the conversation; \<open>MessageDeliveryFailed\<close> when the send failed. The message send is
  one of the external network calls that spec 5 lists as suspension points, so the call
  returns a promise, and the result here is the value that this promise settles to.
\<close>

definition sendMessage :: "collaborators \<Rightarrow> address \<Rightarrow> error + unit" where
  "sendMessage env conversation =
     (if delivers env conversation then Inr () else Inl MessageDeliveryFailed)"

text \<open>
  README, Step 4 (lines 176-191):
  \<^verbatim>\<open>
  let wallet = await initializeWallet();
  let client = await createXMTPClient(wallet);
  let isOnNetwork = await checkAddressIsOnNetwork(client, accountAddress);
  if (isOnNetwork === true) {
    let conversation = await newConversation(client, accountAddress);
    returnMessage = 'Subscribed! Check your inbox for a confirmation link.';
    sendMessage(conversation, ...);
  } else returnMessage = 'Address is not on the XMTP network. ';
  \<close>
  The awaited calls raise in the handler when they fail. \<^verbatim>\<open>sendMessage\<close> is called
  without \<^verbatim>\<open>await\<close>, after \<^verbatim>\<open>returnMessage\<close> is assigned: the handler goes on
  whatever the promise settles to. The block touches no store. Its result is the label or
  the error, the promise that line 185 leaves behind (\<open>None\<close> when no send was issued),
  and the state. The wallet and the client are taken as built: the presence checker and
  the messenger are given an established client.
\<close>

definition subscribe ::
    "collaborators \<Rightarrow> address \<Rightarrow> frame_state \<Rightarrow> (error + string) \<times> (error + unit) option \<times> frame_state" where
  "subscribe env a s0 =
     (let s1 = record_call InitializeWallet s0;
          s2 = record_call CreateXMTPClient s1;
          s3 = record_call (CheckAddressIsOnNetwork a) s2
      in case checkAddressIsOnNetwork env a of
           Inl e \<Rightarrow> (Inl e, None, s3)
         | Inr isOnNetwork \<Rightarrow>
             if isOnNetwork = True then
               (let s4 = record_call (NewConversation a) s3
                in case newConversation env a of
                     Inl e \<Rightarrow> (Inl e, None, s4)
                   | Inr conversation \<Rightarrow>
                       (let returnMessage = ''Subscribed! Check your inbox for a confirmation link.'';
                            sent = sendMessage env conversation;
                            s5 = record_call (SendMessage conversation sent) s4
                        in (Inr returnMessage, Some sent, s5)))
             else (Inr ''Address is not on the XMTP network. '', None, s3))"

text \<open>
  Modelled from the spec: the check for an existing subscription is in no code under the
  source (README lines 154-157 describe it in prose). Subscription Orchestrator, spec 4.2:
  "RESOLVING | address found and already in Subscription Store as subscribed |
  ALREADY_SUBSCRIBED | none", "RESOLVING | address found and not subscribed |
  CHECKING_NETWORK"; the exit maps to the label "You are already subscribed" (spec 6).
  The result is that label, or \<open>None\<close> when the click is to go on.
\<close>

definition alreadySubscribed :: "address \<Rightarrow> frame_state \<Rightarrow> string option \<times> frame_state" where
  "alreadySubscribed a s0 =
     (let s1 = record_call (RedisGet a) s0
      in (if store s1 a then Some ''You are already subscribed'' else None, s1))"

text \<open>
  Modelled from the spec: the write of the subscription is in no code under the source.
  Subscription Orchestrator, spec 4.2: "MESSAGING | send succeeds | SUBSCRIBED | write
  subscribed=true to store", "MESSAGING | send fails | ... store left unmodified"; "the
  write to the Subscription Store happens after successful message delivery, never
  before". \<open>sent\<close> is what the send of this click has settled to, \<open>None\<close> when the
  click has issued no send.
\<close>

definition markSubscribed :: "address \<Rightarrow> (error + unit) option \<Rightarrow> frame_state \<Rightarrow> frame_state" where
  "markSubscribed a sent s =
     (case sent of
        Some (Inr delivered) \<Rightarrow> setSubscribed a s
      | Some (Inl failed) \<Rightarrow> s
      | None \<Rightarrow> s)"

text \<open>
  Modelled from the spec: the README shows the body of \<^verbatim>\<open>getResponse\<close> in two excerpts
  only, lines 133-149 (\<open>body_fid\<close>, \<open>body_buttonIndex\<close>, \<open>accountAddress\<close>) and lines
  176-191 (\<open>subscribe\<close>); the file they are taken from is not part of the source, and no
  code shows what stands between and after them. The two excerpts are joined by the
  control flow of spec 2: "button click, Identity Resolver, Subscription Store
  (idempotency check), Network Presence Checker, Opt-In Messenger, Subscription Store
  (write), status string returned". The two store steps are \<open>alreadySubscribed\<close> and
  \<open>markSubscribed\<close>. A failure of identity resolution ends the click.
  \<^verbatim>\<open>buttonIndex\<close> is read from the body (line 135) and not used again.
\<close>

definition getResponse :: "collaborators \<Rightarrow> frame_request \<Rightarrow> frame_state \<Rightarrow> (error + string) \<times> frame_state" where
  "getResponse env body s0 =
     (let fid_read = body_fid body;
          buttonIndex_read = body_buttonIndex body;
          s1 = record_call (Fetch fid_read) s0
      in case accountAddress (directory env fid_read) of
           Inl e \<Rightarrow> (Inl e, s1)
         | Inr a \<Rightarrow>
             (case alreadySubscribed a s1 of
                (Some label, s2) \<Rightarrow> (Inr label, s2)
              | (None, s2) \<Rightarrow>
                  (case subscribe env a s2 of
                     (outcome, sent, s3) \<Rightarrow> (outcome, markSubscribed a sent s3))))"

text \<open>
  README lines 111-113 and 133: \<^verbatim>\<open>POST\<close> hands the request to \<^verbatim>\<open>getResponse\<close>,
  whose first statement is \<^verbatim>\<open>await req.json()\<close>. A request whose body is not JSON
  rejects there, before any call is issued; otherwise the handler runs on the parsed body.
\<close>

datatype request = NotJsonBody | JsonBody frame_request

definition POST :: "collaborators \<Rightarrow> request \<Rightarrow> frame_state \<Rightarrow> (error + string) \<times> frame_state" where
  "POST env req s0 =
     (case req of
        NotJsonBody \<Rightarrow> (Inl SyntaxError, s0)
      | JsonBody body \<Rightarrow> getResponse env body s0)"

section \<open>The consent page\<close>

text \<open>
  The consent state the messaging network keeps for an address: the SDK's
  \<^verbatim>\<open>'unknown' | 'allowed' | 'denied'\<close>.
\<close>

datatype consent_state = Unknown | Allowed | Denied

definition consent_name :: "consent_state \<Rightarrow> string" where
  "consent_name state =
     (case state of Unknown \<Rightarrow> ''unknown'' | Allowed \<Rightarrow> ''allowed'' | Denied \<Rightarrow> ''denied'')"

text \<open>The awaited calls of \<^verbatim>\<open>handleClick\<close>; each may reject.\<close>

datatype consent_call =
    ConnectWallet
  | ClientCreate
  | RefreshConsentList
  | ContactsAllow
  | ContactsDeny

text \<open>
  What \<^verbatim>\<open>console.log\<close> receives: the client's address (line 207), or the caught
  error (line 230), identified by the call that raised it.
\<close>

datatype log_entry = LogAddress | LogError consent_call

text \<open>
  The page and what it acts on: the two pieces of component state set by
  \<^verbatim>\<open>setLoading\<close> and \<^verbatim>\<open>setSubscriptionStatus\<close>, the console, and the consent
  state that the network holds for the client's own address. \<^verbatim>\<open>contacts.allow\<close>
  sets that state to allowed and \<^verbatim>\<open>contacts.deny\<close> to denied; a call that rejects
  changes nothing.
\<close>

record consent_page =
  loading :: bool
  subscriptionStatus :: string
  console :: "log_entry list"
  consentState :: consent_state

text \<open>
  Lines 223-227, the end of the \<^verbatim>\<open>try\<close> block:
  \<^verbatim>\<open>setSubscriptionStatus('Consent State: ' + state); setLoading(false);\<close>
\<close>

definition show_state :: "consent_state \<Rightarrow> consent_page \<Rightarrow> consent_page" where
  "show_state state w =
     w\<lparr>subscriptionStatus := ''Consent State: '' @ consent_name state, loading := False\<rparr>"

text \<open>
  The \<^verbatim>\<open>try\<close> block of \<^verbatim>\<open>handleClick\<close> (README lines 201-227). \<open>rejects c\<close> says
  that the awaited call \<open>c\<close> raises when it is reached. The result is the exception
  that leaves the block, if any, and the page as it is at that moment.
  \<^verbatim>\<open>
  setLoading(true);
  let wallet = await connectWallet();
  let client = await Client.create(wallet, { env: process.env.NEXT_PUBLIC_XMTP_ENV });
  console.log(client.address);
  await client.contacts.refreshConsentList();
  let state = client.contacts.consentState(client.address);
  if (state === 'unknown' || state === 'denied') {
    state = 'allowed';
    await client.contacts.allow([client.address]);
  } else if (state === 'allowed') {
    state = 'denied';
    await client.contacts.deny([client.address]);
  }
  setSubscriptionStatus('Consent State: ' + state);
  setLoading(false);
  \<close>
\<close>

definition try_block :: "(consent_call \<Rightarrow> bool) \<Rightarrow> consent_page \<Rightarrow> consent_call option \<times> consent_page" where
  "try_block rejects w0 =
     (let w1 = w0\<lparr>loading := True\<rparr>
      in if rejects ConnectWallet then (Some ConnectWallet, w1)
         else if rejects ClientCreate then (Some ClientCreate, w1)
         else
           (let w2 = w1\<lparr>console := console w1 @ [LogAddress]\<rparr>
            in if rejects RefreshConsentList then (Some RefreshConsentList, w2)
               else
                 (let state = consentState w2
                  in if state = Unknown \<or> state = Denied then
                       (if rejects ContactsAllow then (Some ContactsAllow, w2)
                        else (None, show_state Allowed (w2\<lparr>consentState := Allowed\<rparr>)))
                     else if state = Allowed then
                       (if rejects ContactsDeny then (Some ContactsDeny, w2)
                        else (None, show_state Denied (w2\<lparr>consentState := Denied\<rparr>)))
                     else (None, show_state state w2))))"

text \<open>
  \<^verbatim>\<open>handleClick\<close> (README lines 200-232): the \<^verbatim>\<open>try\<close> block, and the handler
  \<^verbatim>\<open>catch (error) { console.log(error); }\<close> for whatever it raises. The first component
  of the result is the exception that leaves \<^verbatim>\<open>handleClick\<close> itself.
\<close>

definition handleClick :: "(consent_call \<Rightarrow> bool) \<Rightarrow> consent_page \<Rightarrow> consent_call option \<times> consent_page" where
  "handleClick rejects w0 =
     (case try_block rejects w0 of
        (None, w) \<Rightarrow> (None, w)
      | (Some error, w) \<Rightarrow> (None, w\<lparr>console := console w @ [LogError error]\<rparr>))"

section \<open>Reading a click's call log\<close>

fun is_send :: "event \<Rightarrow> bool" where
  "is_send (SendMessage _ _) = True"
| "is_send _ = False"

fun is_store_write :: "event \<Rightarrow> bool" where
  "is_store_write (RedisSet _) = True"
| "is_store_write _ = False"

fun is_presence_check :: "event \<Rightarrow> bool" where
  "is_presence_check (CheckAddressIsOnNetwork _) = True"
| "is_presence_check _ = False"

fun is_messenger_call :: "event \<Rightarrow> bool" where
  "is_messenger_call (NewConversation _) = True"
| "is_messenger_call (SendMessage _ _) = True"
| "is_messenger_call _ = False"

text \<open>The three calls that lines 177-180 issue for an address.\<close>

definition presence_calls :: "address \<Rightarrow> event list" where
  "presence_calls a = [InitializeWallet, CreateXMTPClient, CheckAddressIsOnNetwork a]"

text \<open>The state a click starts in: the store as it is, and no call issued yet.\<close>

definition before_click :: "(address \<Rightarrow> bool) \<Rightarrow> frame_state" where
  "before_click db = \<lparr>store = db, calls = []\<rparr>"

section \<open>Sample inputs\<close>

text \<open>The payload of the README's example, for a given \<^verbatim>\<open>fid\<close>.\<close>

definition click :: "int \<Rightarrow> frame_request" where
  "click n = \<lparr>untrustedData = Some \<lparr>fid = Some n, buttonIndex = Some 1\<rparr>\<rparr>"

definition one_user :: "string list option \<Rightarrow> directory_reply" where
  "one_user vs = Json (Some [\<lparr>verifications = vs\<rparr>])"

text \<open>
  Collaborators that answer the same for every id and address: a directory with one user
  whose verifications are \<open>vs\<close>, a network that answers \<open>ans\<close>, conversations that open
  or not, messages that are delivered or not.
\<close>

definition world :: "string list option \<Rightarrow> network_answer \<Rightarrow> bool \<Rightarrow> bool \<Rightarrow> collaborators" where
  "world vs ans opn dlv =
     \<lparr>directory = (\<lambda>_. one_user vs), network = (\<lambda>_. ans),
      opens = (\<lambda>_. opn), delivers = (\<lambda>_. dlv)\<rparr>"

text \<open>The empty store.\<close>

definition nobody :: "address \<Rightarrow> bool" where
  "nobody a = False"

text \<open>A consent page on which no call rejects, and one on which exactly one call does.\<close>

definition never :: "consent_call \<Rightarrow> bool" where
  "never c = False"

definition only :: "consent_call \<Rightarrow> consent_call \<Rightarrow> bool" where
  "only c d = (d = c)"

definition page0 :: "consent_state \<Rightarrow> consent_page" where
  "page0 state = \<lparr>loading = False, subscriptionStatus = [], console = [], consentState = state\<rparr>"

section \<open>The paths of a click\<close>

lemmas frame_defs = getResponse_def subscribe_def record_call_def setSubscribed_def
  alreadySubscribed_def markSubscribed_def checkAddressIsOnNetwork_def newConversation_def
  sendMessage_def body_fid_def body_buttonIndex_def accountAddress_def

lemmas sample_defs = before_click_def click_def one_user_def world_def nobody_def

lemmas consent_defs = handleClick_def try_block_def show_state_def consent_name_def

lemma nobody_at: "\<not> nobody a"
  by (simp add: nobody_def)

lemma getResponse_unresolved:
  "accountAddress (directory env (body_fid body)) = Inl e \<Longrightarrow>
   getResponse env body s = (Inl e, record_call (Fetch (body_fid body)) s)"
  by (simp add: getResponse_def)

lemma getResponse_subscribed:
  "accountAddress (directory env (body_fid body)) = Inr a \<Longrightarrow> store s a \<Longrightarrow>
   getResponse env body s =
     (Inr ''You are already subscribed'',
      record_call (RedisGet a) (record_call (Fetch (body_fid body)) s))"
  by (simp add: getResponse_def alreadySubscribed_def record_call_def)

lemma getResponse_not_subscribed:
  "accountAddress (directory env (body_fid body)) = Inr a \<Longrightarrow> \<not> store s a \<Longrightarrow>
   getResponse env body s =
     (case subscribe env a (record_call (RedisGet a) (record_call (Fetch (body_fid body)) s)) of
        (outcome, sent, s3) \<Rightarrow> (outcome, markSubscribed a sent s3))"
  by (simp add: getResponse_def alreadySubscribed_def record_call_def)

lemma subscribe_transport_failure:
  "network env a = TransportFailure \<Longrightarrow>
   subscribe env a s =
     (Inl PresenceCheckFailed, None, s\<lparr>calls := calls s @ presence_calls a\<rparr>)"
  by (simp add: subscribe_def checkAddressIsOnNetwork_def record_call_def presence_calls_def)

lemma subscribe_not_on_network:
  "network env a = Reachable False \<Longrightarrow>
   subscribe env a s =
     (Inr ''Address is not on the XMTP network. '', None,
      s\<lparr>calls := calls s @ presence_calls a\<rparr>)"
  by (simp add: subscribe_def checkAddressIsOnNetwork_def record_call_def presence_calls_def)

lemma subscribe_conversation_failed:
  "network env a = Reachable True \<Longrightarrow> \<not> opens env a \<Longrightarrow>
   subscribe env a s =
     (Inl MessageDeliveryFailed, None,
      s\<lparr>calls := calls s @ presence_calls a @ [NewConversation a]\<rparr>)"
  by (simp add: subscribe_def checkAddressIsOnNetwork_def record_call_def presence_calls_def
      newConversation_def)

lemma subscribe_sent:
  "network env a = Reachable True \<Longrightarrow> opens env a \<Longrightarrow>
   subscribe env a s =
     (Inr ''Subscribed! Check your inbox for a confirmation link.'',
      Some (sendMessage env a),
      s\<lparr>calls := calls s @ presence_calls a
                   @ [NewConversation a, SendMessage a (sendMessage env a)]\<rparr>)"
  by (simp add: subscribe_def checkAddressIsOnNetwork_def record_call_def presence_calls_def
      newConversation_def Let_def)

lemmas subscribe_cases = subscribe_transport_failure subscribe_not_on_network
  subscribe_conversation_failed subscribe_sent

text \<open>The five ways a click with a resolved, not yet subscribed address can go.\<close>

lemma click_transport_failure:
  assumes "accountAddress (directory env (body_fid body)) = Inr a" and "\<not> db a"
    and "network env a = TransportFailure"
  shows "getResponse env body (before_click db) =
     (Inl PresenceCheckFailed,
      \<lparr>store = db, calls = [Fetch (body_fid body), RedisGet a] @ presence_calls a\<rparr>)"
  using assms
  by (simp add: getResponse_not_subscribed before_click_def subscribe_cases record_call_def
      markSubscribed_def)

lemma click_not_on_network:
  assumes "accountAddress (directory env (body_fid body)) = Inr a" and "\<not> db a"
    and "network env a = Reachable False"
  shows "getResponse env body (before_click db) =
     (Inr ''Address is not on the XMTP network. '',
      \<lparr>store = db, calls = [Fetch (body_fid body), RedisGet a] @ presence_calls a\<rparr>)"
  using assms
  by (simp add: getResponse_not_subscribed before_click_def subscribe_cases record_call_def
      markSubscribed_def)

lemma click_conversation_failed:
  assumes "accountAddress (directory env (body_fid body)) = Inr a" and "\<not> db a"
    and "network env a = Reachable True" and "\<not> opens env a"
  shows "getResponse env body (before_click db) =
     (Inl MessageDeliveryFailed,
      \<lparr>store = db,
       calls = [Fetch (body_fid body), RedisGet a] @ presence_calls a @ [NewConversation a]\<rparr>)"
  using assms
  by (simp add: getResponse_not_subscribed before_click_def subscribe_cases record_call_def
      markSubscribed_def)

lemma click_send_failed:
  assumes "accountAddress (directory env (body_fid body)) = Inr a" and "\<not> db a"
    and "network env a = Reachable True" and "opens env a" and "\<not> delivers env a"
  shows "getResponse env body (before_click db) =
     (Inr ''Subscribed! Check your inbox for a confirmation link.'',
      \<lparr>store = db,
       calls = [Fetch (body_fid body), RedisGet a] @ presence_calls a
                 @ [NewConversation a, SendMessage a (Inl MessageDeliveryFailed)]\<rparr>)"
  using assms
  by (simp add: getResponse_not_subscribed before_click_def subscribe_cases record_call_def
      markSubscribed_def sendMessage_def)

lemma click_delivered:
  assumes "accountAddress (directory env (body_fid body)) = Inr a" and "\<not> db a"
    and "network env a = Reachable True" and "opens env a" and "delivers env a"
  shows "getResponse env body (before_click db) =
     (Inr ''Subscribed! Check your inbox for a confirmation link.'',
      \<lparr>store = db(a := True),
       calls = [Fetch (body_fid body), RedisGet a] @ presence_calls a
                 @ [NewConversation a, SendMessage a (Inr ()), RedisSet a]\<rparr>)"
  using assms
  by (simp add: getResponse_not_subscribed before_click_def subscribe_cases record_call_def
      markSubscribed_def sendMessage_def setSubscribed_def)

lemmas click_paths = click_transport_failure click_not_on_network click_conversation_failed
  click_send_failed click_delivered

lemma getResponse_resolved_outcome:
  assumes "accountAddress (directory env (body_fid body)) = Inr a"
  shows "fst (getResponse env body (before_click db)) \<noteq> Inl TypeError
         \<and> fst (getResponse env body (before_click db)) \<noteq> Inl SyntaxError
         \<and> fst (getResponse env body (before_click db)) \<noteq> Inl FetchFailed"
proof (cases "db a")
  case True
  with assms show ?thesis
    by (simp add: getResponse_subscribed before_click_def)
next
  case False
  show ?thesis
  proof (cases "network env a")
    case TransportFailure
    with assms False show ?thesis by (simp add: click_paths)
  next
    case (Reachable r)
    with assms False show ?thesis
      by (cases r; cases "opens env a"; cases "delivers env a") (simp_all add: click_paths)
  qed
qed

text \<open>
  Once a click has delivered its message, the next click for the same address stops at
  the store read.
\<close>

lemma second_click_short_circuits:
  assumes "accountAddress (directory env (body_fid body)) = Inr a" and "\<not> db a"
    and "network env a = Reachable True" and "opens env a" and "delivers env a"
  shows "getResponse env body (before_click (store (snd (getResponse env body (before_click db)))))
     = (Inr ''You are already subscribed'',
        \<lparr>store = db(a := True), calls = [Fetch (body_fid body), RedisGet a]\<rparr>)"
proof -
  have "store (snd (getResponse env body (before_click db))) = db(a := True)"
    using assms by (simp add: click_delivered)
  with assms(1) show ?thesis
    by (simp add: getResponse_subscribed before_click_def record_call_def)
qed

lemma handleClick_toggles:
  "handleClick never w =
     (None, w\<lparr>loading := False,
              subscriptionStatus := ''Consent State: ''
                 @ consent_name (if consentState w = Allowed then Denied else Allowed),
              console := console w @ [LogAddress],
              consentState := (if consentState w = Allowed then Denied else Allowed)\<rparr>)"
  by (cases "consentState w") (simp_all add: consent_defs never_def)

section \<open>The claims about the frame endpoint\<close>



text \<open>
  C2: a click whose address resolves, is not yet subscribed and is on the network, whose
  conversation opens and whose message is delivered, returns exactly
  "Subscribed! Check your inbox for a confirmation link.", issues exactly one send, and
  after it exactly one store write, which marks that address subscribed.
\<close>

theorem fresh_click_subscribes:
  assumes "accountAddress (directory env (body_fid body)) = Inr a"
    and "\<not> db a"
    and "network env a = Reachable True"
    and "opens env a"
    and "delivers env a"
  shows "getResponse env body (before_click db) =
           (Inr ''Subscribed! Check your inbox for a confirmation link.'',
            \<lparr>store = db(a := True),
             calls = [Fetch (body_fid body), RedisGet a, InitializeWallet, CreateXMTPClient,
                      CheckAddressIsOnNetwork a, NewConversation a, SendMessage a (Inr ()),
                      RedisSet a]\<rparr>)
         \<and> filter is_send (calls (snd (getResponse env body (before_click db))))
             = [SendMessage a (Inr ())]
         \<and> filter is_store_write (calls (snd (getResponse env body (before_click db))))
             = [RedisSet a]"
  using assms
  by (simp add: click_delivered presence_calls_def)

text \<open>C2 at the README's example click, on an empty store.\<close>

theorem fresh_click_subscribes_witness:
  "getResponse (world (Some [''0xabc'']) (Reachable True) True True) (click 10952)
     (before_click nobody) =
     (Inr ''Subscribed! Check your inbox for a confirmation link.'',
      \<lparr>store = nobody(Some ''0xabc'' := True),
       calls = [Fetch (Some 10952), RedisGet (Some ''0xabc''), InitializeWallet, CreateXMTPClient,
                CheckAddressIsOnNetwork (Some ''0xabc''), NewConversation (Some ''0xabc''),
                SendMessage (Some ''0xabc'') (Inr ()), RedisSet (Some ''0xabc'')]\<rparr>)"
  using fresh_click_subscribes [of "world (Some [''0xabc'']) (Reachable True) True True"
      "click 10952" "Some ''0xabc''" nobody]
  by (simp add: click_def one_user_def world_def body_fid_def accountAddress_def nobody_at)

text \<open>
  C3: a click whose resolved address is already marked subscribed in the store returns
  exactly "You are already subscribed"; its only calls are the directory lookup and the
  store read, so there is no presence check, no messenger call and no store write; and in
  every click that resolves an address, whatever the store holds, the store read is the
  first call after the directory lookup.
\<close>

theorem subscribed_click_short_circuits:
  assumes "accountAddress (directory env (body_fid body)) = Inr a"
    and "db a"
  shows "getResponse env body (before_click db) =
           (Inr ''You are already subscribed'',
            \<lparr>store = db, calls = [Fetch (body_fid body), RedisGet a]\<rparr>)
         \<and> filter is_presence_check (calls (snd (getResponse env body (before_click db)))) = []
         \<and> filter is_messenger_call (calls (snd (getResponse env body (before_click db)))) = []
         \<and> filter is_store_write (calls (snd (getResponse env body (before_click db)))) = []
         \<and> (\<exists>rest. calls (snd (getResponse env body (before_click db'))) =
               [Fetch (body_fid body), RedisGet a] @ rest)"
proof -
  have first: "getResponse env body (before_click db) =
      (Inr ''You are already subscribed'',
       \<lparr>store = db, calls = [Fetch (body_fid body), RedisGet a]\<rparr>)"
    using assms by (simp add: getResponse_subscribed before_click_def record_call_def)
  have "\<exists>rest. calls (snd (getResponse env body (before_click db'))) =
               [Fetch (body_fid body), RedisGet a] @ rest"
  proof (cases "db' a")
    case True
    with assms(1) show ?thesis
      by (simp add: getResponse_subscribed before_click_def record_call_def)
  next
    case False
    show ?thesis
    proof (cases "network env a")
      case TransportFailure
      with assms(1) False show ?thesis
        by (simp add: click_paths)
    next
      case (Reachable r)
      with assms(1) False show ?thesis
        by (cases r; cases "opens env a"; cases "delivers env a") (simp_all add: click_paths)
    qed
  qed
  with first show ?thesis by simp
qed

text \<open>C3 at the README's example click, on a store that holds the address.\<close>

theorem subscribed_click_short_circuits_witness:
  "getResponse (world (Some [''0xabc'']) (Reachable True) True True) (click 10952)
     (before_click (nobody(Some ''0xabc'' := True))) =
     (Inr ''You are already subscribed'',
      \<lparr>store = nobody(Some ''0xabc'' := True),
       calls = [Fetch (Some 10952), RedisGet (Some ''0xabc'')]\<rparr>)"
  using subscribed_click_short_circuits [of "world (Some [''0xabc'']) (Reachable True) True True"
      "click 10952" "Some ''0xabc''" "nobody(Some ''0xabc'' := True)"]
  by (simp add: sample_defs body_fid_def accountAddress_def)

text \<open>
  C4, at a click for a fresh address that the network reports as not reachable: the store
  is left as it was, but the label that line 191 assigns is
  "Address is not on the XMTP network. ", with a full stop and a space at its end, and
  not the text "Address is not on the XMTP network" that line 161 of the README announces.
\<close>

theorem not_on_network_label_differs:
  "fst (getResponse (world (Some [''0xabc'']) (Reachable False) True True) (click 10952)
       (before_click nobody))
     = Inr ''Address is not on the XMTP network. ''
   \<and> fst (getResponse (world (Some [''0xabc'']) (Reachable False) True True) (click 10952)
       (before_click nobody))
     \<noteq> Inr ''Address is not on the XMTP network''
   \<and> store (snd (getResponse (world (Some [''0xabc'']) (Reachable False) True True) (click 10952)
       (before_click nobody)))
     = nobody"
  by (simp add: frame_defs before_click_def click_def one_user_def world_def nobody_at Let_def)

text \<open>
  C5, as stated, fails. The directory returns, for fid 99999, a user whose list of
  verifications is empty: identity resolution raises nothing and yields the address
  \<^verbatim>\<open>undefined\<close>, and the click ends with a label, not with an error.
\<close>

theorem empty_verifications_resolve_undefined:
  "accountAddress (directory (world (Some []) (Reachable False) True True) (body_fid (click 99999)))
     = Inr None
   \<and> fst (getResponse (world (Some []) (Reachable False) True True) (click 99999)
       (before_click nobody))
     = Inr ''Address is not on the XMTP network. ''"
  by (simp add: frame_defs before_click_def click_def one_user_def world_def nobody_at Let_def)

text \<open>
  C5, amended: when the first user of the directory's answer has no list of
  verifications, the click ends with a terminal error, a TypeError, right after the
  directory lookup; the store is not mutated and no call is made beyond the directory
  lookup. When the list is there and empty, identity resolution does not fail: it yields
  the address \<^verbatim>\<open>undefined\<close>, and the click does not end with an error of identity
  resolution.
\<close>

theorem no_verified_address_outcomes:
  "(directory env (body_fid body) = Json (Some (user # others)) \<and> verifications user = None
      \<longrightarrow> getResponse env body (before_click db) =
            (Inl TypeError, \<lparr>store = db, calls = [Fetch (body_fid body)]\<rparr>))
   \<and> (directory env (body_fid body) = Json (Some (user # others)) \<and> verifications user = Some []
      \<longrightarrow> accountAddress (directory env (body_fid body)) = Inr None
          \<and> fst (getResponse env body (before_click db)) \<noteq> Inl TypeError
          \<and> fst (getResponse env body (before_click db)) \<noteq> Inl SyntaxError
          \<and> fst (getResponse env body (before_click db)) \<noteq> Inl FetchFailed)"
proof (intro conjI impI)
  assume "directory env (body_fid body) = Json (Some (user # others)) \<and> verifications user = None"
  then have "accountAddress (directory env (body_fid body)) = Inl TypeError"
    by (simp add: accountAddress_def)
  then show "getResponse env body (before_click db) =
      (Inl TypeError, \<lparr>store = db, calls = [Fetch (body_fid body)]\<rparr>)"
    by (simp add: getResponse_unresolved before_click_def record_call_def)
next
  assume "directory env (body_fid body) = Json (Some (user # others))
      \<and> verifications user = Some []"
  then show resolved: "accountAddress (directory env (body_fid body)) = Inr None"
    by (simp add: accountAddress_def)
  from resolved show "fst (getResponse env body (before_click db)) \<noteq> Inl TypeError"
    by (simp add: getResponse_resolved_outcome)
  from resolved show "fst (getResponse env body (before_click db)) \<noteq> Inl SyntaxError"
    by (simp add: getResponse_resolved_outcome)
  from resolved show "fst (getResponse env body (before_click db)) \<noteq> Inl FetchFailed"
    by (simp add: getResponse_resolved_outcome)
qed

text \<open>
  The amended C5 at a user without a list of verifications, and at a user with an empty
  one.
\<close>

theorem no_verified_address_outcomes_witness:
  "getResponse (world None (Reachable True) True True) (click 99999) (before_click nobody) =
     (Inl TypeError, \<lparr>store = nobody, calls = [Fetch (Some 99999)]\<rparr>)
   \<and> accountAddress (directory (world (Some []) (Reachable True) True True) (body_fid (click 99999)))
       = Inr None
   \<and> fst (getResponse (world (Some []) (Reachable True) True True) (click 99999) (before_click nobody))
       \<noteq> Inl TypeError"
  using no_verified_address_outcomes [of "world None (Reachable True) True True" "click 99999"
      "\<lparr>verifications = None\<rparr>" "[]" nobody]
    no_verified_address_outcomes [of "world (Some []) (Reachable True) True True" "click 99999"
      "\<lparr>verifications = Some []\<rparr>" "[]" nobody]
  by (simp add: click_def one_user_def world_def body_fid_def)

text \<open>
  C6: when the address resolves, is not yet subscribed, and the presence check meets a
  transport failure, the click ends with the error \<open>PresenceCheckFailed\<close> right after the
  presence check; it does not return the label of the negative answer, and the store is
  left as it was.
\<close>

theorem presence_failure_is_surfaced:
  assumes "accountAddress (directory env (body_fid body)) = Inr a"
    and "\<not> db a"
    and "network env a = TransportFailure"
  shows "getResponse env body (before_click db) =
           (Inl PresenceCheckFailed,
            \<lparr>store = db,
             calls = [Fetch (body_fid body), RedisGet a, InitializeWallet, CreateXMTPClient,
                      CheckAddressIsOnNetwork a]\<rparr>)
         \<and> fst (getResponse env body (before_click db))
             \<noteq> Inr ''Address is not on the XMTP network. ''"
  using assms
  by (simp add: click_transport_failure presence_calls_def)

text \<open>C6 at the README's example click, with a network that cannot be reached.\<close>

theorem presence_failure_is_surfaced_witness:
  "getResponse (world (Some [''0xabc'']) TransportFailure True True) (click 10952)
     (before_click nobody) =
     (Inl PresenceCheckFailed,
      \<lparr>store = nobody,
       calls = [Fetch (Some 10952), RedisGet (Some ''0xabc''), InitializeWallet, CreateXMTPClient,
                CheckAddressIsOnNetwork (Some ''0xabc'')]\<rparr>)"
  using presence_failure_is_surfaced [of "world (Some [''0xabc'']) TransportFailure True True"
      "click 10952" "Some ''0xabc''" nobody]
  by (simp add: click_def one_user_def world_def body_fid_def accountAddress_def nobody_at)




text \<open>
  C10: two clicks that differ only in the \<^verbatim>\<open>buttonIndex\<close> of \<^verbatim>\<open>untrustedData\<close> have
  the same outcome, the same store and the same calls: the handler reads the field from
  the body, and the \<^verbatim>\<open>fid\<close> it looks up does not depend on it.
\<close>

theorem buttonIndex_is_ignored:
  "getResponse env \<lparr>untrustedData = Some (u\<lparr>buttonIndex := i\<rparr>)\<rparr> s
     = getResponse env \<lparr>untrustedData = Some (u\<lparr>buttonIndex := j\<rparr>)\<rparr> s
   \<and> body_buttonIndex \<lparr>untrustedData = Some (u\<lparr>buttonIndex := i\<rparr>)\<rparr> = i
   \<and> body_fid \<lparr>untrustedData = Some (u\<lparr>buttonIndex := i\<rparr>)\<rparr> = fid u"
  by (simp add: getResponse_def body_fid_def body_buttonIndex_def)

section \<open>The claims about the consent page\<close>

text \<open>
  C8: when no call rejects, a click on the consent page takes the consent state unknown
  to allowed, denied to allowed and allowed to denied. Two clicks in a row, the second
  reading what the first has set, take denied back to denied and allowed back to allowed,
  but take unknown to denied, not back to unknown. The label shows the new state each
  time.
\<close>

theorem consent_toggle_twice:
  "consentState (snd (handleClick never (w\<lparr>consentState := Unknown\<rparr>))) = Allowed
   \<and> consentState (snd (handleClick never (w\<lparr>consentState := Denied\<rparr>))) = Allowed
   \<and> consentState (snd (handleClick never (w\<lparr>consentState := Allowed\<rparr>))) = Denied
   \<and> consentState (snd (handleClick never (snd (handleClick never (w\<lparr>consentState := Denied\<rparr>)))))
       = Denied
   \<and> consentState (snd (handleClick never (snd (handleClick never (w\<lparr>consentState := Allowed\<rparr>)))))
       = Allowed
   \<and> consentState (snd (handleClick never (snd (handleClick never (w\<lparr>consentState := Unknown\<rparr>)))))
       = Denied
   \<and> subscriptionStatus (snd (handleClick never (w\<lparr>consentState := Unknown\<rparr>)))
       = ''Consent State: allowed''
   \<and> subscriptionStatus (snd (handleClick never (snd (handleClick never (w\<lparr>consentState := Unknown\<rparr>)))))
       = ''Consent State: denied''"
  by (simp add: handleClick_toggles consent_name_def)

text \<open>
  C9: when one of the calls that the click reaches rejects (the wallet connection, the
  client creation, the refresh of the consent list, or the allow or deny call that the
  current state selects), no exception leaves \<^verbatim>\<open>handleClick\<close>, the displayed label is
  not changed, the consent state is not changed, and the rejection of that call is the
  last entry logged on the console.
\<close>

theorem consent_failure_is_soft:
  assumes "rejects ConnectWallet \<or> rejects ClientCreate \<or> rejects RefreshConsentList
           \<or> (consentState w \<noteq> Allowed \<and> rejects ContactsAllow)
           \<or> (consentState w = Allowed \<and> rejects ContactsDeny)"
  shows "fst (handleClick rejects w) = None
         \<and> subscriptionStatus (snd (handleClick rejects w)) = subscriptionStatus w
         \<and> consentState (snd (handleClick rejects w)) = consentState w
         \<and> (\<exists>c. rejects c \<and> fst (try_block rejects w) = Some c
                \<and> (console (snd (handleClick rejects w)) = console w @ [LogError c]
                   \<or> console (snd (handleClick rejects w)) = console w @ [LogAddress, LogError c]))"
  using assms
  by (cases "consentState w") (auto simp add: consent_defs Let_def)

text \<open>C9 at a page in state unknown on which the allow call rejects.\<close>

theorem consent_failure_is_soft_witness:
  "handleClick (only ContactsAllow) (page0 Unknown) =
     (None, \<lparr>loading = True, subscriptionStatus = [],
             console = [LogAddress, LogError ContactsAllow], consentState = Unknown\<rparr>)
   \<and> fst (handleClick (only ContactsAllow) (page0 Unknown)) = None
   \<and> subscriptionStatus (snd (handleClick (only ContactsAllow) (page0 Unknown)))
       = subscriptionStatus (page0 Unknown)"
  using consent_failure_is_soft [of "only ContactsAllow" "page0 Unknown"]
  by (simp add: consent_defs page0_def only_def)

end
